theory Spec2Isabelle
  imports Main
begin

section \<open>The device record\<close>

text \<open>
  The Go struct \<open>DevicePayload\<close> (main.go, lines 16-21): four string fields, each tagged
  with a JSON name equal to the field name. Go strings are byte sequences; a \<open>string\<close>
  here is a list of 8-bit characters.
\<close>

record DevicePayload =
  DeviceName :: string
  DeviceType :: string
  IPAddress :: string
  RoutingType :: string

text \<open>The zero value that \<open>var payload DevicePayload\<close> declares.\<close>

definition zero_payload :: DevicePayload where
  "zero_payload = \<lparr>DeviceName = [], DeviceType = [], IPAddress = [], RoutingType = []\<rparr>"

section \<open>The log file and the operating system\<close>

text \<open>
  The only state the handlers share is the file \<open>server.log\<close>: absent (\<open>None\<close>) or
  present with its bytes. The world also records, in order, every file-system call the
  program makes, so that "the file is not accessed" is a statement about the model.
\<close>

datatype syscall = SysReadFile | SysOpenFile | SysWriteString | SysClose | SysTruncate

record world =
  log_file :: "string option"
  sys_trace :: "syscall list"

text \<open>
  A file-system call fails either because the file does not exist or for another cause
  chosen by the environment (permissions, a full disk, a device error). \<open>os.IsNotExist\<close>
  tells the two apart; it is false of the \<open>nil\<close> error.
\<close>

datatype fault = PermissionDenied | NoSpace | DeviceError

datatype os_error = ErrNotExist | ErrOther fault

fun IsNotExist :: "os_error option \<Rightarrow> bool" where
  "IsNotExist (Some ErrNotExist) = True"
| "IsNotExist _ = False"

definition traced :: "syscall \<Rightarrow> world \<Rightarrow> world" where
  "traced c w = w\<lparr>sys_trace := sys_trace w @ [c]\<rparr>"

text \<open>The bytes a file holds; a file that is created starts with none.\<close>

definition file_bytes :: "string option \<Rightarrow> string" where
  "file_bytes file = (case file of None \<Rightarrow> [] | Some content \<Rightarrow> content)"

text \<open>\<open>os.ReadFile(logFileName)\<close>: the pair (content, err) that Go returns.\<close>

definition os_ReadFile :: "fault option \<Rightarrow> world \<Rightarrow> (string \<times> os_error option) \<times> world" where
  "os_ReadFile flt w =
     ((case flt of
         Some f \<Rightarrow> ([], Some (ErrOther f))
       | None \<Rightarrow> (case log_file w of
                    None \<Rightarrow> ([], Some ErrNotExist)
                  | Some content \<Rightarrow> (content, None))),
      traced SysReadFile w)"

text \<open>
  \<open>os.OpenFile(logFileName, O_APPEND|O_CREATE|O_WRONLY, 0644)\<close>: creates the file, empty,
  when it is absent. The handle it returns always denotes the log file, so only the error
  is kept.
\<close>

definition os_OpenFile :: "fault option \<Rightarrow> world \<Rightarrow> os_error option \<times> world" where
  "os_OpenFile flt w =
     (case flt of
        Some f \<Rightarrow> (Some (ErrOther f), traced SysOpenFile w)
      | None \<Rightarrow> (None, traced SysOpenFile (w\<lparr>log_file := Some (file_bytes (log_file w))\<rparr>)))"

text \<open>
  \<open>f.WriteString(s)\<close> on a handle opened for append: a failing write may already have
  written the first \<open>n\<close> bytes.
\<close>

definition append_bytes :: "string \<Rightarrow> world \<Rightarrow> world" where
  "append_bytes s w =
     w\<lparr>log_file := Some (file_bytes (log_file w) @ s)\<rparr>"

definition file_WriteString :: "(nat \<times> fault) option \<Rightarrow> string \<Rightarrow> world \<Rightarrow> os_error option \<times> world" where
  "file_WriteString flt s w =
     (case flt of
        Some (n, f) \<Rightarrow> (Some (ErrOther f), traced SysWriteString (append_bytes (take n s) w))
      | None \<Rightarrow> (None, traced SysWriteString (append_bytes s w)))"

definition file_Close :: "world \<Rightarrow> world" where
  "file_Close w = traced SysClose w"

text \<open>\<open>os.Truncate(logFileName, 0)\<close>.\<close>

definition os_Truncate :: "fault option \<Rightarrow> world \<Rightarrow> os_error option \<times> world" where
  "os_Truncate flt w =
     (case flt of
        Some f \<Rightarrow> (Some (ErrOther f), traced SysTruncate w)
      | None \<Rightarrow> (case log_file w of
                   None \<Rightarrow> (Some ErrNotExist, traced SysTruncate w)
                 | Some content \<Rightarrow> (None, traced SysTruncate (w\<lparr>log_file := Some []\<rparr>))))"

text \<open>
  What the environment decides during one request: the formatted result of
  \<open>time.Now().Format(time.RFC3339)\<close> and whether each file-system call fails.
\<close>

record env =
  now :: string
  read_fault :: "fault option"
  open_fault :: "fault option"
  write_fault :: "(nat \<times> fault) option"
  trunc_fault :: "fault option"

section \<open>Requests and responses\<close>

text \<open>
  The JSON value that \<open>json.NewDecoder(r.Body)\<close> reads from the body: \<open>Malformed\<close> when
  the body holds no complete JSON value (a syntax error or an empty body), otherwise the
  first value in it, with strings and object keys already unquoted.
\<close>

datatype json =
    JNull
  | JBool bool
  | JNumber string
  | JString string
  | JArray "json list"
  | JObject "(string \<times> json) list"

datatype request_body = Malformed | Value json

record request =
  Method :: string
  Body :: request_body

record response =
  status :: nat
  body :: string

definition StatusOK :: nat where "StatusOK = 200"
definition StatusBadRequest :: nat where "StatusBadRequest = 400"
definition StatusMethodNotAllowed :: nat where "StatusMethodNotAllowed = 405"
definition StatusInternalServerError :: nat where "StatusInternalServerError = 500"

text \<open>The fixed texts of the handlers, as the UTF-8 bytes of the source's string literals.\<close>

definition msg_method_not_allowed :: string where
  \<comment> \<open>handleRoot, default branch\<close>
  "msg_method_not_allowed =
     [CHR 0xD0, CHR 0x9C, CHR 0xD0, CHR 0xB5, CHR 0xD1, CHR 0x82, CHR 0xD0, CHR 0xBE] @
     [CHR 0xD0, CHR 0xB4] @
     '' '' @
     [CHR 0xD0, CHR 0xBD, CHR 0xD0, CHR 0xB5] @
     '' '' @
     [CHR 0xD0, CHR 0xB4, CHR 0xD0, CHR 0xBE, CHR 0xD0, CHR 0xB7, CHR 0xD0, CHR 0xB2] @
     [CHR 0xD0, CHR 0xBE, CHR 0xD0, CHR 0xBB, CHR 0xD0, CHR 0xB5, CHR 0xD0, CHR 0xBD] @
     [CHR 0xD0, CHR 0xBE]"

definition msg_log_empty :: string where
  \<comment> \<open>handleGet, file does not exist\<close>
  "msg_log_empty =
     [CHR 0xD0, CHR 0xA4, CHR 0xD0, CHR 0xB0, CHR 0xD0, CHR 0xB9, CHR 0xD0, CHR 0xBB] @
     '' '' @
     [CHR 0xD0, CHR 0xBB, CHR 0xD0, CHR 0xBE, CHR 0xD0, CHR 0xB3, CHR 0xD1, CHR 0x96] @
     [CHR 0xD0, CHR 0xB2] @
     '' '' @
     [CHR 0xD0, CHR 0xBF, CHR 0xD0, CHR 0xBE, CHR 0xD1, CHR 0x80, CHR 0xD0, CHR 0xBE] @
     [CHR 0xD0, CHR 0xB6, CHR 0xD0, CHR 0xBD, CHR 0xD1, CHR 0x96, CHR 0xD0, CHR 0xB9] @
     '' '' @
     [CHR 0xD0, CHR 0xB0, CHR 0xD0, CHR 0xB1, CHR 0xD0, CHR 0xBE] @
     '' '' @
     [CHR 0xD0, CHR 0xBD, CHR 0xD0, CHR 0xB5] @
     '' '' @
     [CHR 0xD1, CHR 0x96, CHR 0xD1, CHR 0x81, CHR 0xD0, CHR 0xBD, CHR 0xD1, CHR 0x83] @
     [CHR 0xD1, CHR 0x94]"

definition msg_read_failed :: string where
  \<comment> \<open>handleGet, other read error\<close>
  "msg_read_failed =
     [CHR 0xD0, CHR 0x9D, CHR 0xD0, CHR 0xB5] @
     '' '' @
     [CHR 0xD0, CHR 0xB2, CHR 0xD0, CHR 0xB4, CHR 0xD0, CHR 0xB0, CHR 0xD0, CHR 0xBB] @
     [CHR 0xD0, CHR 0xBE, CHR 0xD1, CHR 0x81, CHR 0xD1, CHR 0x8F] @
     '' '' @
     [CHR 0xD0, CHR 0xBF, CHR 0xD1, CHR 0x80, CHR 0xD0, CHR 0xBE, CHR 0xD1, CHR 0x87] @
     [CHR 0xD0, CHR 0xB8, CHR 0xD1, CHR 0x82, CHR 0xD0, CHR 0xB0, CHR 0xD1, CHR 0x82] @
     [CHR 0xD0, CHR 0xB8] @
     '' '' @
     [CHR 0xD1, CHR 0x84, CHR 0xD0, CHR 0xB0, CHR 0xD0, CHR 0xB9, CHR 0xD0, CHR 0xBB] @
     '' '' @
     [CHR 0xD0, CHR 0xBB, CHR 0xD0, CHR 0xBE, CHR 0xD0, CHR 0xB3, CHR 0xD1, CHR 0x96] @
     [CHR 0xD0, CHR 0xB2]"

definition msg_bad_json :: string where
  \<comment> \<open>handlePost, decode error\<close>
  "msg_bad_json =
     [CHR 0xD0, CHR 0x9D, CHR 0xD0, CHR 0xB5, CHR 0xD0, CHR 0xB2, CHR 0xD1, CHR 0x96] @
     [CHR 0xD1, CHR 0x80, CHR 0xD0, CHR 0xBD, CHR 0xD0, CHR 0xB8, CHR 0xD0, CHR 0xB9] @
     '' '' @
     [CHR 0xD1, CHR 0x84, CHR 0xD0, CHR 0xBE, CHR 0xD1, CHR 0x80, CHR 0xD0, CHR 0xBC] @
     [CHR 0xD0, CHR 0xB0, CHR 0xD1, CHR 0x82] @
     '' JSON''"

definition msg_open_failed :: string where
  \<comment> \<open>handlePost, open error\<close>
  "msg_open_failed =
     [CHR 0xD0, CHR 0x9D, CHR 0xD0, CHR 0xB5] @
     '' '' @
     [CHR 0xD0, CHR 0xB2, CHR 0xD0, CHR 0xB4, CHR 0xD0, CHR 0xB0, CHR 0xD0, CHR 0xBB] @
     [CHR 0xD0, CHR 0xBE, CHR 0xD1, CHR 0x81, CHR 0xD1, CHR 0x8F] @
     '' '' @
     [CHR 0xD0, CHR 0xB2, CHR 0xD1, CHR 0x96, CHR 0xD0, CHR 0xB4, CHR 0xD0, CHR 0xBA] @
     [CHR 0xD1, CHR 0x80, CHR 0xD0, CHR 0xB8, CHR 0xD1, CHR 0x82, CHR 0xD0, CHR 0xB8] @
     '' '' @
     [CHR 0xD1, CHR 0x84, CHR 0xD0, CHR 0xB0, CHR 0xD0, CHR 0xB9, CHR 0xD0, CHR 0xBB] @
     '' '' @
     [CHR 0xD0, CHR 0xBB, CHR 0xD0, CHR 0xBE, CHR 0xD0, CHR 0xB3, CHR 0xD1, CHR 0x96] @
     [CHR 0xD0, CHR 0xB2]"

definition msg_write_failed :: string where
  \<comment> \<open>handlePost, write error\<close>
  "msg_write_failed =
     [CHR 0xD0, CHR 0x9D, CHR 0xD0, CHR 0xB5] @
     '' '' @
     [CHR 0xD0, CHR 0xB2, CHR 0xD0, CHR 0xB4, CHR 0xD0, CHR 0xB0, CHR 0xD0, CHR 0xBB] @
     [CHR 0xD0, CHR 0xBE, CHR 0xD1, CHR 0x81, CHR 0xD1, CHR 0x8F] @
     '' '' @
     [CHR 0xD0, CHR 0xB7, CHR 0xD0, CHR 0xB0, CHR 0xD0, CHR 0xBF, CHR 0xD0, CHR 0xB8] @
     [CHR 0xD1, CHR 0x81, CHR 0xD0, CHR 0xB0, CHR 0xD1, CHR 0x82, CHR 0xD0, CHR 0xB8] @
     '' '' @
     [CHR 0xD1, CHR 0x83] @
     '' '' @
     [CHR 0xD1, CHR 0x84, CHR 0xD0, CHR 0xB0, CHR 0xD0, CHR 0xB9, CHR 0xD0, CHR 0xBB] @
     '' '' @
     [CHR 0xD0, CHR 0xBB, CHR 0xD0, CHR 0xBE, CHR 0xD0, CHR 0xB3, CHR 0xD1, CHR 0x96] @
     [CHR 0xD0, CHR 0xB2]"

definition msg_written :: string where
  \<comment> \<open>handlePost, success\<close>
  "msg_written =
     [CHR 0xD0, CHR 0x94, CHR 0xD0, CHR 0xB0, CHR 0xD0, CHR 0xBD, CHR 0xD1, CHR 0x96] @
     '' '' @
     [CHR 0xD1, CHR 0x83, CHR 0xD1, CHR 0x81, CHR 0xD0, CHR 0xBF, CHR 0xD1, CHR 0x96] @
     [CHR 0xD1, CHR 0x88, CHR 0xD0, CHR 0xBD, CHR 0xD0, CHR 0xBE] @
     '' '' @
     [CHR 0xD0, CHR 0xB7, CHR 0xD0, CHR 0xB0, CHR 0xD0, CHR 0xBF, CHR 0xD0, CHR 0xB8] @
     [CHR 0xD1, CHR 0x81, CHR 0xD0, CHR 0xB0, CHR 0xD0, CHR 0xBD, CHR 0xD0, CHR 0xBE]"

definition msg_clear_failed :: string where
  \<comment> \<open>handleDelete, truncate error\<close>
  "msg_clear_failed =
     [CHR 0xD0, CHR 0x9D, CHR 0xD0, CHR 0xB5] @
     '' '' @
     [CHR 0xD0, CHR 0xB2, CHR 0xD0, CHR 0xB4, CHR 0xD0, CHR 0xB0, CHR 0xD0, CHR 0xBB] @
     [CHR 0xD0, CHR 0xBE, CHR 0xD1, CHR 0x81, CHR 0xD1, CHR 0x8F] @
     '' '' @
     [CHR 0xD0, CHR 0xBE, CHR 0xD1, CHR 0x87, CHR 0xD0, CHR 0xB8, CHR 0xD1, CHR 0x81] @
     [CHR 0xD1, CHR 0x82, CHR 0xD0, CHR 0xB8, CHR 0xD1, CHR 0x82, CHR 0xD0, CHR 0xB8] @
     '' '' @
     [CHR 0xD1, CHR 0x84, CHR 0xD0, CHR 0xB0, CHR 0xD0, CHR 0xB9, CHR 0xD0, CHR 0xBB] @
     '' '' @
     [CHR 0xD0, CHR 0xBB, CHR 0xD0, CHR 0xBE, CHR 0xD0, CHR 0xB3, CHR 0xD1, CHR 0x96] @
     [CHR 0xD0, CHR 0xB2]"

definition msg_cleared :: string where
  \<comment> \<open>handleDelete, success\<close>
  "msg_cleared =
     [CHR 0xD0, CHR 0xA4, CHR 0xD0, CHR 0xB0, CHR 0xD0, CHR 0xB9, CHR 0xD0, CHR 0xBB] @
     '' '' @
     [CHR 0xD0, CHR 0xBB, CHR 0xD0, CHR 0xBE, CHR 0xD0, CHR 0xB3, CHR 0xD1, CHR 0x96] @
     [CHR 0xD0, CHR 0xB2] @
     '' '' @
     [CHR 0xD0, CHR 0xBE, CHR 0xD1, CHR 0x87, CHR 0xD0, CHR 0xB8, CHR 0xD1, CHR 0x89] @
     [CHR 0xD0, CHR 0xB5, CHR 0xD0, CHR 0xBD, CHR 0xD0, CHR 0xBE]"

text \<open>\<open>http.Error\<close> writes the status and the message followed by a newline.\<close>

definition http_Error :: "string \<Rightarrow> nat \<Rightarrow> response" where
  "http_Error msg code = \<lparr>status = code, body = msg @ [CHR 0x0A]\<rparr>"

section \<open>Decoding the request body\<close>

text \<open>
  \<open>Decode(&payload)\<close> of the standard library's \<open>encoding/json\<close>, for a struct of four
  string fields. A key selects a field when it equals the field's name up to case folding
  (\<open>foldName\<close>: ASCII letters to upper case; of the other runes only U+017F and U+212A
  fold to ASCII, to S and to K). A key that selects no field is skipped with its value.
  A string value is stored, \<open>null\<close> leaves the field as it is, any other value is an
  \<open>UnmarshalTypeError\<close>. At top level \<open>null\<close> changes nothing and succeeds, and anything
  but an object or \<open>null\<close> is an \<open>UnmarshalTypeError\<close>.
\<close>

datatype decode_error = SyntaxError | UnmarshalTypeError

datatype field = FDeviceName | FDeviceType | FIPAddress | FRoutingType

fun foldName :: "string \<Rightarrow> string" where
  "foldName [] = []"
| "foldName (c # cs) =
     (if of_char c < (128::nat) then
        (if (97::nat) \<le> of_char c \<and> of_char c \<le> (122::nat)
         then char_of (of_char c - (32::nat)) # foldName cs
         else c # foldName cs)
      else if c = CHR 0xC5 \<and> take 1 cs = [CHR 0xBF] then CHR ''S'' # foldName (drop 1 cs)
      else if c = CHR 0xE2 \<and> take 2 cs = [CHR 0x84, CHR 0xAA] then CHR ''K'' # foldName (drop 2 cs)
      else c # foldName cs)"

definition field_of_key :: "string \<Rightarrow> field option" where
  "field_of_key k =
     (let u = foldName k in
      if u = ''DEVICENAME'' then Some FDeviceName
      else if u = ''DEVICETYPE'' then Some FDeviceType
      else if u = ''IPADDRESS'' then Some FIPAddress
      else if u = ''ROUTINGTYPE'' then Some FRoutingType
      else None)"

fun set_field :: "field \<Rightarrow> string \<Rightarrow> DevicePayload \<Rightarrow> DevicePayload" where
  "set_field FDeviceName s p = p\<lparr>DeviceName := s\<rparr>"
| "set_field FDeviceType s p = p\<lparr>DeviceType := s\<rparr>"
| "set_field FIPAddress s p = p\<lparr>IPAddress := s\<rparr>"
| "set_field FRoutingType s p = p\<lparr>RoutingType := s\<rparr>"

fun get_field :: "field \<Rightarrow> DevicePayload \<Rightarrow> string" where
  "get_field FDeviceName p = DeviceName p"
| "get_field FDeviceType p = DeviceType p"
| "get_field FIPAddress p = IPAddress p"
| "get_field FRoutingType p = RoutingType p"

fun store_value :: "field \<Rightarrow> json \<Rightarrow> DevicePayload \<Rightarrow> decode_error + DevicePayload" where
  "store_value f (JString s) p = Inr (set_field f s p)"
| "store_value f JNull p = Inr p"
| "store_value f _ p = Inl UnmarshalTypeError"

fun decode_object :: "(string \<times> json) list \<Rightarrow> DevicePayload \<Rightarrow> decode_error + DevicePayload" where
  "decode_object [] p = Inr p"
| "decode_object ((k, v) # kvs) p =
     (case field_of_key k of
        None \<Rightarrow> decode_object kvs p
      | Some f \<Rightarrow> (case store_value f v p of
                    Inl e \<Rightarrow> Inl e
                  | Inr p' \<Rightarrow> decode_object kvs p'))"

fun Decode :: "request_body \<Rightarrow> DevicePayload \<Rightarrow> decode_error + DevicePayload" where
  "Decode Malformed p = Inl SyntaxError"
| "Decode (Value JNull) p = Inr p"
| "Decode (Value (JObject kvs)) p = decode_object kvs p"
| "Decode (Value _) p = Inl UnmarshalTypeError"

section \<open>The handlers\<close>

text \<open>
  Each handler takes what the environment decides, the request and the world, and returns
  the response with the world after it. The mutex is held from \<open>fileMutex.Lock()\<close> to
  the handler's return, so the file-system calls of one request form one step here.
\<close>

definition handleGet :: "env \<Rightarrow> request \<Rightarrow> world \<Rightarrow> response \<times> world" where
  "handleGet e r w =
     (let ((content, err), w1) = os_ReadFile (read_fault e) w in
      if IsNotExist err then (\<lparr>status = StatusOK, body = msg_log_empty\<rparr>, w1)
      else if err \<noteq> None then (http_Error msg_read_failed StatusInternalServerError, w1)
      else (\<lparr>status = StatusOK, body = content\<rparr>, w1))"

definition logEntry :: "string \<Rightarrow> DevicePayload \<Rightarrow> string" where
  \<comment> \<open>\<open>fmt.Sprintf("[%s] Name=%s, Type=%s, IP=%s, Routing=%s\n", ...)\<close>\<close>
  "logEntry timestamp payload =
     ''['' @ timestamp @ ''] Name='' @ DeviceName payload @ '', Type='' @ DeviceType payload @
     '', IP='' @ IPAddress payload @ '', Routing='' @ RoutingType payload @ [CHR 0x0A]"

definition handlePost :: "env \<Rightarrow> request \<Rightarrow> world \<Rightarrow> response \<times> world" where
  "handlePost e r w =
     (case Decode (Body r) zero_payload of
        Inl err \<Rightarrow> (http_Error msg_bad_json StatusBadRequest, w)
      | Inr payload \<Rightarrow>
          (let timestamp = now e;
               entry = logEntry timestamp payload;
               (err, w1) = os_OpenFile (open_fault e) w
           in if err \<noteq> None then (http_Error msg_open_failed StatusInternalServerError, w1)
              else
                (let (err2, w2) = file_WriteString (write_fault e) entry w1
                 in if err2 \<noteq> None
                    then (http_Error msg_write_failed StatusInternalServerError, file_Close w2)
                    else (\<lparr>status = StatusOK, body = msg_written\<rparr>, file_Close w2))))"

definition handleDelete :: "env \<Rightarrow> request \<Rightarrow> world \<Rightarrow> response \<times> world" where
  "handleDelete e r w =
     (let (err, w1) = os_Truncate (trunc_fault e) w in
      if err \<noteq> None \<and> \<not> IsNotExist err
      then (http_Error msg_clear_failed StatusInternalServerError, w1)
      else (\<lparr>status = StatusOK, body = msg_cleared\<rparr>, w1))"

definition handleRoot :: "env \<Rightarrow> request \<Rightarrow> world \<Rightarrow> response \<times> world" where
  "handleRoot e r w =
     (if Method r = ''GET'' then handleGet e r w
      else if Method r = ''POST'' then handlePost e r w
      else if Method r = ''DELETE'' then handleDelete e r w
      else (http_Error msg_method_not_allowed StatusMethodNotAllowed, w))"

text \<open>
  The server takes the requests one at a time: the handlers of two requests never overlap
  between \<open>Lock\<close> and \<open>Unlock\<close>. \<open>serve\<close> runs a sequence of requests, each with what
  the environment decides for it, and collects the responses.
\<close>

fun serve :: "(env \<times> request) list \<Rightarrow> world \<Rightarrow> response list \<times> world" where
  "serve [] w = ([], w)"
| "serve ((e, r) # rest) w =
     (let (resp, w1) = handleRoot e r w;
          (resps, w2) = serve rest w1
      in (resp # resps, w2))"

text \<open>An environment in which every file-system call behaves as the file's state says.\<close>

definition quiet :: "string \<Rightarrow> env" where
  "quiet t = \<lparr>now = t, read_fault = None, open_fault = None, write_fault = None,
              trunc_fault = None\<rparr>"

definition GET :: request where "GET = \<lparr>Method = ''GET'', Body = Malformed\<rparr>"
definition DELETE :: request where "DELETE = \<lparr>Method = ''DELETE'', Body = Malformed\<rparr>"
definition POST :: "json \<Rightarrow> request" where "POST v = \<lparr>Method = ''POST'', Body = Value v\<rparr>"

text \<open>
  Whether the body of a request decodes into the record, and the record it decodes to
  (the zero value when it does not).
\<close>

definition decodes :: "request \<Rightarrow> bool" where
  "decodes r = (case Decode (Body r) zero_payload of Inl err \<Rightarrow> False | Inr payload \<Rightarrow> True)"

definition decoded :: "request \<Rightarrow> DevicePayload" where
  "decoded r = (case Decode (Body r) zero_payload of Inl err \<Rightarrow> zero_payload | Inr payload \<Rightarrow> payload)"

section \<open>The simulation driver\<close>

record NetworkConfig =
  SubnetPrefix :: string
  PC :: int
  Laptop :: int
  Printer :: int

text \<open>
  The verb \<open>%d\<close> of \<open>fmt.Sprintf\<close> on an \<open>int\<close>: decimal digits, a minus sign before a
  negative number. The driver's counters stay far below the range of Go's \<open>int\<close>, so they
  are unbounded integers here.
\<close>

fun decimal :: "nat \<Rightarrow> string" where
  "decimal n =
     (if n < 10 then [char_of (48 + n)]
      else decimal (n div 10) @ [char_of (48 + n mod 10)])"

declare decimal.simps [simp del]

definition fmt_d :: "int \<Rightarrow> string" where
  "fmt_d i = (if i < 0 then ''-'' @ decimal (nat (- i)) else decimal (nat i))"

text \<open>
  \<open>runSimulation\<close> (lines 138-185). The state of the loops is \<open>ipCounter\<close> and the list of
  payloads handed to \<open>sendPostRequest\<close> so far, in order. \<open>device_loop\<close> is the innermost
  loop \<open>for i := 1; i <= devGroup.Count; i++\<close>, \<open>group_loop\<close> the loop over the three
  device groups, \<open>network_loop\<close> the loop over the networks with its index.
\<close>

function device_loop ::
  "NetworkConfig \<Rightarrow> int \<Rightarrow> string \<Rightarrow> int \<Rightarrow> int \<Rightarrow> int \<times> DevicePayload list
     \<Rightarrow> int \<times> DevicePayload list" where
  "device_loop netArg netIdx typ count i (ipCounter, sent) =
     (if i \<le> count then
        (let deviceName = typ @ fmt_d i @ ''_'' @ fmt_d (netIdx + 1);
             ipAddress = SubnetPrefix netArg @ ''.'' @ fmt_d ipCounter;
             routingType = (if ipCounter mod 2 = 0 then ''Dynamic'' else ''Static'');
             payload = \<lparr>DeviceName = deviceName, DeviceType = typ,
                        IPAddress = ipAddress, RoutingType = routingType\<rparr>
         in device_loop netArg netIdx typ count (i + 1) (ipCounter + 1, sent @ [payload]))
      else (ipCounter, sent))"
  by pat_completeness auto
termination
  by (relation "measure (\<lambda>(netArg, netIdx, typ, count, i, st). nat (count + 1 - i))") auto

declare device_loop.simps [simp del]

fun group_loop ::
  "NetworkConfig \<Rightarrow> int \<Rightarrow> (string \<times> int) list \<Rightarrow> int \<times> DevicePayload list
     \<Rightarrow> int \<times> DevicePayload list" where
  "group_loop netArg netIdx [] st = st"
| "group_loop netArg netIdx ((typ, count) # groups) st =
     group_loop netArg netIdx groups (device_loop netArg netIdx typ count 1 st)"

fun network_loop :: "NetworkConfig list \<Rightarrow> int \<Rightarrow> DevicePayload list \<Rightarrow> DevicePayload list" where
  "network_loop [] netIdx sent = sent"
| "network_loop (netArg # rest) netIdx sent =
     (let devices = [(''PC'', PC netArg), (''Laptop'', Laptop netArg), (''Printer'', Printer netArg)];
          ipCounter = 10;
          (ipCounter', sent') = group_loop netArg netIdx devices (ipCounter, sent)
      in network_loop rest (netIdx + 1) sent')"

definition networks :: "NetworkConfig list" where
  "networks =
     [\<lparr>SubnetPrefix = ''192.168.1'', PC = 3, Laptop = 1, Printer = 1\<rparr>,
      \<lparr>SubnetPrefix = ''192.168.2'', PC = 3, Laptop = 1, Printer = 1\<rparr>]"

definition runSimulation :: "DevicePayload list" where
  "runSimulation = network_loop networks 0 []"

section \<open>Timestamps and lines of text\<close>

text \<open>
  The reading of the clock that \<open>time.Now()\<close> returns, as far as the layout
  \<open>time.RFC3339\<close> ("2006-01-02T15:04:05Z07:00") shows it: the date, the time of day
  and the offset of the local zone from UTC in seconds. \<open>pad\<close> is the zero-padded
  decimal of a field. The zone is \<open>Z\<close> when the offset is zero; otherwise the offset is
  cut to whole minutes (Go's division truncates towards zero) and printed with its sign as
  hours and minutes.
\<close>

record wall_time =
  year :: nat
  month :: nat
  day :: nat
  hour :: nat
  minute :: nat
  second :: nat
  zone_offset :: int

definition pad :: "nat \<Rightarrow> nat \<Rightarrow> string" where
  "pad width n = replicate (width - length (decimal n)) (CHR ''0'') @ decimal n"

definition zone_suffix :: "int \<Rightarrow> string" where
  "zone_suffix offset =
     (if offset = 0 then ''Z''
      else
        (let zone = (if offset < 0 then - ((- offset) div 60) else offset div 60)
         in if zone < 0
            then ''-'' @ pad 2 (nat (- zone) div 60) @ '':'' @ pad 2 (nat (- zone) mod 60)
            else ''+'' @ pad 2 (nat zone div 60) @ '':'' @ pad 2 (nat zone mod 60)))"

definition RFC3339 :: "wall_time \<Rightarrow> string" where
  "RFC3339 t =
     pad 4 (year t) @ ''-'' @ pad 2 (month t) @ ''-'' @ pad 2 (day t) @ ''T'' @
     pad 2 (hour t) @ '':'' @ pad 2 (minute t) @ '':'' @ pad 2 (second t) @
     zone_suffix (zone_offset t)"

text \<open>
  A POST is valid when its method is POST and its body decodes; \<open>stamped\<close> pairs it
  with the environment in which the clock reads \<open>t\<close> and every file-system call
  succeeds. \<open>line_text\<close> is the line the specification gives for it, without the final
  newline, and \<open>plain_fields\<close> says that no field of a record holds a newline byte.
\<close>

definition newline_free :: "string \<Rightarrow> bool" where
  "newline_free s = (CHR 0x0A \<notin> set s)"

definition plain_fields :: "DevicePayload \<Rightarrow> bool" where
  "plain_fields p =
     (newline_free (DeviceName p) \<and> newline_free (DeviceType p) \<and>
      newline_free (IPAddress p) \<and> newline_free (RoutingType p))"

definition valid_post :: "request \<Rightarrow> bool" where
  "valid_post r = (Method r = ''POST'' \<and> decodes r)"

definition stamped :: "wall_time \<times> request \<Rightarrow> env \<times> request" where
  "stamped x = (case x of (t, r) \<Rightarrow> (quiet (RFC3339 t), r))"

definition line_text :: "wall_time \<times> request \<Rightarrow> string" where
  "line_text x =
     (case x of (t, r) \<Rightarrow>
        ''['' @ RFC3339 t @ ''] Name='' @ DeviceName (decoded r) @ '', Type='' @
        DeviceType (decoded r) @ '', IP='' @ IPAddress (decoded r) @ '', Routing='' @
        RoutingType (decoded r))"

text \<open>
  The lines of a text: the runs of bytes that end at a newline, and the run after the last
  newline when it is not empty.
\<close>

fun lines_from :: "string \<Rightarrow> string \<Rightarrow> string list" where
  "lines_from cur [] = (if cur = [] then [] else [cur])"
| "lines_from cur (c # cs) =
     (if c = CHR 0x0A then cur # lines_from [] cs else lines_from (cur @ [c]) cs)"

definition text_lines :: "string \<Rightarrow> string list" where
  "text_lines s = lines_from [] s"

section \<open>What one handler call does\<close>

lemma status_simps:
  "StatusOK = 200" "StatusBadRequest = 400" "StatusMethodNotAllowed = 405"
  "StatusInternalServerError = 500"
  by (simp_all add: StatusOK_def StatusBadRequest_def StatusMethodNotAllowed_def
      StatusInternalServerError_def)

lemma file_bytes_simps [simp]: "file_bytes None = []" "file_bytes (Some c) = c"
  by (simp_all add: file_bytes_def)

lemma handleGet_absent:
  "read_fault e = None \<Longrightarrow> log_file w = None \<Longrightarrow>
   handleGet e r w = (\<lparr>status = 200, body = msg_log_empty\<rparr>, traced SysReadFile w)"
  by (simp add: handleGet_def os_ReadFile_def status_simps)

lemma handleGet_present:
  "read_fault e = None \<Longrightarrow> log_file w = Some c \<Longrightarrow>
   handleGet e r w = (\<lparr>status = 200, body = c\<rparr>, traced SysReadFile w)"
  by (simp add: handleGet_def os_ReadFile_def status_simps)

lemma handleGet_fault:
  "read_fault e = Some f \<Longrightarrow>
   handleGet e r w =
     (\<lparr>status = 500, body = msg_read_failed @ [CHR 0x0A]\<rparr>, traced SysReadFile w)"
  by (simp add: handleGet_def os_ReadFile_def status_simps http_Error_def)

lemma handleDelete_absent:
  "trunc_fault e = None \<Longrightarrow> log_file w = None \<Longrightarrow>
   handleDelete e r w = (\<lparr>status = 200, body = msg_cleared\<rparr>, traced SysTruncate w)"
  by (simp add: handleDelete_def os_Truncate_def status_simps)

lemma handleDelete_present:
  "trunc_fault e = None \<Longrightarrow> log_file w = Some c \<Longrightarrow>
   handleDelete e r w =
     (\<lparr>status = 200, body = msg_cleared\<rparr>, traced SysTruncate (w\<lparr>log_file := Some []\<rparr>))"
  by (simp add: handleDelete_def os_Truncate_def status_simps)

lemma handleDelete_fault:
  "trunc_fault e = Some f \<Longrightarrow>
   handleDelete e r w =
     (\<lparr>status = 500, body = msg_clear_failed @ [CHR 0x0A]\<rparr>, traced SysTruncate w)"
  by (simp add: handleDelete_def os_Truncate_def status_simps http_Error_def)

lemma handlePost_undecodable:
  "Decode (Body r) zero_payload = Inl err \<Longrightarrow>
   handlePost e r w = (\<lparr>status = 400, body = msg_bad_json @ [CHR 0x0A]\<rparr>, w)"
  by (simp add: handlePost_def status_simps http_Error_def)

lemma handlePost_ok:
  "Decode (Body r) zero_payload = Inr p \<Longrightarrow> open_fault e = None \<Longrightarrow>
   write_fault e = None \<Longrightarrow>
   handlePost e r w =
     (\<lparr>status = 200, body = msg_written\<rparr>,
      w\<lparr>log_file := Some (file_bytes (log_file w) @ logEntry (now e) p),
        sys_trace := sys_trace w @ [SysOpenFile, SysWriteString, SysClose]\<rparr>)"
  by (simp add: handlePost_def os_OpenFile_def file_WriteString_def file_Close_def
      append_bytes_def traced_def status_simps)

lemma handlePost_open_fault:
  "Decode (Body r) zero_payload = Inr p \<Longrightarrow> open_fault e = Some f \<Longrightarrow>
   handlePost e r w =
     (\<lparr>status = 500, body = msg_open_failed @ [CHR 0x0A]\<rparr>, traced SysOpenFile w)"
  by (simp add: handlePost_def os_OpenFile_def status_simps http_Error_def)

lemma handlePost_write_fault:
  "Decode (Body r) zero_payload = Inr p \<Longrightarrow> open_fault e = None \<Longrightarrow>
   write_fault e = Some (n, f) \<Longrightarrow>
   handlePost e r w =
     (\<lparr>status = 500, body = msg_write_failed @ [CHR 0x0A]\<rparr>,
      w\<lparr>log_file := Some (file_bytes (log_file w) @ take n (logEntry (now e) p)),
        sys_trace := sys_trace w @ [SysOpenFile, SysWriteString, SysClose]\<rparr>)"
  by (simp add: handlePost_def os_OpenFile_def file_WriteString_def file_Close_def
      append_bytes_def traced_def status_simps http_Error_def)

lemma handleRoot_get: "Method r = ''GET'' \<Longrightarrow> handleRoot e r w = handleGet e r w"
  by (simp add: handleRoot_def)

lemma handleRoot_post: "Method r = ''POST'' \<Longrightarrow> handleRoot e r w = handlePost e r w"
  by (simp add: handleRoot_def)

lemma handleRoot_delete: "Method r = ''DELETE'' \<Longrightarrow> handleRoot e r w = handleDelete e r w"
  by (simp add: handleRoot_def)

lemma msg_log_empty_not_nil: "msg_log_empty \<noteq> []"
  by (simp add: msg_log_empty_def)

section \<open>The GET handler\<close>

text \<open>
  C5. GET answers 200 with the fixed message when the log file does not exist, 500 when
  the read fails for any other cause, and otherwise 200 with exactly the bytes of the
  file. The three cases cover every environment and every state of the file, and the status
  is 500 exactly when \<open>os.ReadFile\<close> reports an error other than "does not exist"; the
  world after the call differs from the one before only by the recorded read.
\<close>

theorem handleGet_outcomes:
  "handleGet (e\<lparr>read_fault := None\<rparr>) r (w\<lparr>log_file := None\<rparr>) =
     (\<lparr>status = 200, body = msg_log_empty\<rparr>, traced SysReadFile (w\<lparr>log_file := None\<rparr>))
   \<and> handleGet (e\<lparr>read_fault := Some f\<rparr>) r w =
     (\<lparr>status = 500, body = msg_read_failed @ [CHR 0x0A]\<rparr>, traced SysReadFile w)
   \<and> handleGet (e\<lparr>read_fault := None\<rparr>) r (w\<lparr>log_file := Some c\<rparr>) =
     (\<lparr>status = 200, body = c\<rparr>, traced SysReadFile (w\<lparr>log_file := Some c\<rparr>))
   \<and> (status (fst (handleGet e' r w')) = 500) =
     (\<exists>g. snd (fst (os_ReadFile (read_fault e') w')) = Some (ErrOther g))
   \<and> (status (fst (handleGet e' r w')) = 500 \<or> status (fst (handleGet e' r w')) = 200)
   \<and> log_file (snd (handleGet e' r w')) = log_file w'"
proof -
  have a: "handleGet (e\<lparr>read_fault := None\<rparr>) r (w\<lparr>log_file := None\<rparr>) =
     (\<lparr>status = 200, body = msg_log_empty\<rparr>, traced SysReadFile (w\<lparr>log_file := None\<rparr>))"
    by (rule handleGet_absent) simp_all
  have b: "handleGet (e\<lparr>read_fault := Some f\<rparr>) r w =
     (\<lparr>status = 500, body = msg_read_failed @ [CHR 0x0A]\<rparr>, traced SysReadFile w)"
    by (rule handleGet_fault) simp
  have c: "handleGet (e\<lparr>read_fault := None\<rparr>) r (w\<lparr>log_file := Some c\<rparr>) =
     (\<lparr>status = 200, body = c\<rparr>, traced SysReadFile (w\<lparr>log_file := Some c\<rparr>))"
    by (rule handleGet_present) simp_all
  have d: "(status (fst (handleGet e' r w')) = 500) =
     (\<exists>g. snd (fst (os_ReadFile (read_fault e') w')) = Some (ErrOther g))"
    by (cases "read_fault e'"; cases "log_file w'")
       (simp_all add: handleGet_def os_ReadFile_def status_simps http_Error_def)
  have e: "status (fst (handleGet e' r w')) = 500 \<or> status (fst (handleGet e' r w')) = 200"
    by (cases "read_fault e'"; cases "log_file w'")
       (simp_all add: handleGet_def os_ReadFile_def status_simps http_Error_def)
  have f: "log_file (snd (handleGet e' r w')) = log_file w'"
    by (cases "read_fault e'"; cases "log_file w'")
       (simp_all add: handleGet_def os_ReadFile_def traced_def)
  from a b c d e f show ?thesis by blast
qed

section \<open>The DELETE handler\<close>

text \<open>
  C6. DELETE answers 200 when the log file does not exist and leaves it absent, answers
  200 after truncating an existing file to zero length, and answers 500, with the file as
  it was, when the truncation fails for another cause. The status is 500 exactly when
  \<open>os.Truncate\<close> reports an error other than "does not exist", and 200 otherwise.
\<close>

theorem handleDelete_outcomes:
  "handleDelete (e\<lparr>trunc_fault := None\<rparr>) r (w\<lparr>log_file := None\<rparr>) =
     (\<lparr>status = 200, body = msg_cleared\<rparr>, traced SysTruncate (w\<lparr>log_file := None\<rparr>))
   \<and> handleDelete (e\<lparr>trunc_fault := None\<rparr>) r (w\<lparr>log_file := Some c\<rparr>) =
     (\<lparr>status = 200, body = msg_cleared\<rparr>, traced SysTruncate (w\<lparr>log_file := Some []\<rparr>))
   \<and> handleDelete (e\<lparr>trunc_fault := Some f\<rparr>) r w =
     (\<lparr>status = 500, body = msg_clear_failed @ [CHR 0x0A]\<rparr>, traced SysTruncate w)
   \<and> (status (fst (handleDelete e' r w')) = 500) =
     (\<exists>g. fst (os_Truncate (trunc_fault e') w') = Some (ErrOther g))
   \<and> (status (fst (handleDelete e' r w')) = 500 \<or> status (fst (handleDelete e' r w')) = 200)"
proof -
  have a: "handleDelete (e\<lparr>trunc_fault := None\<rparr>) r (w\<lparr>log_file := None\<rparr>) =
     (\<lparr>status = 200, body = msg_cleared\<rparr>, traced SysTruncate (w\<lparr>log_file := None\<rparr>))"
    by (rule handleDelete_absent) simp_all
  have b: "handleDelete (e\<lparr>trunc_fault := None\<rparr>) r (w\<lparr>log_file := Some c\<rparr>) =
     (\<lparr>status = 200, body = msg_cleared\<rparr>, traced SysTruncate (w\<lparr>log_file := Some []\<rparr>))"
    using handleDelete_present [of "e\<lparr>trunc_fault := None\<rparr>" "w\<lparr>log_file := Some c\<rparr>" c r]
    by simp
  have c: "handleDelete (e\<lparr>trunc_fault := Some f\<rparr>) r w =
     (\<lparr>status = 500, body = msg_clear_failed @ [CHR 0x0A]\<rparr>, traced SysTruncate w)"
    by (rule handleDelete_fault) simp
  have d: "(status (fst (handleDelete e' r w')) = 500) =
     (\<exists>g. fst (os_Truncate (trunc_fault e') w') = Some (ErrOther g))"
    by (cases "trunc_fault e'"; cases "log_file w'")
       (simp_all add: handleDelete_def os_Truncate_def status_simps http_Error_def)
  have e: "status (fst (handleDelete e' r w')) = 500 \<or> status (fst (handleDelete e' r w')) = 200"
    by (cases "trunc_fault e'"; cases "log_file w'")
       (simp_all add: handleDelete_def os_Truncate_def status_simps http_Error_def)
  from a b c d e show ?thesis by blast
qed

text \<open>
  C2. GET puts the fixed message in place of the content only when the log file is absent.
  A file that exists is answered with its own bytes whatever they are (or with 500 when
  the read fails): the handler never replaces them, and a file that stores the text of the
  message is echoed like any other. So a file of zero length gives status 200 and an empty
  body, which is not the fixed message. That is the state right after a DELETE that truncated an
  existing file: the file is there, with no bytes, and the GET that follows answers 200
  with an empty body.
\<close>

theorem handleGet_message_only_for_absent_file:
  "fst (handleGet (e\<lparr>read_fault := None\<rparr>) r (w\<lparr>log_file := None\<rparr>)) =
     \<lparr>status = 200, body = msg_log_empty\<rparr>
   \<and> fst (handleGet e r (w\<lparr>log_file := Some c\<rparr>)) =
     (if read_fault e = None then \<lparr>status = 200, body = c\<rparr>
      else \<lparr>status = 500, body = msg_read_failed @ [CHR 0x0A]\<rparr>)
   \<and> fst (handleGet (e\<lparr>read_fault := None\<rparr>) r (w\<lparr>log_file := Some []\<rparr>)) =
     \<lparr>status = 200, body = []\<rparr>
   \<and> \<lparr>status = 200, body = []\<rparr> \<noteq> \<lparr>status = 200, body = msg_log_empty\<rparr>
   \<and> log_file (snd (handleDelete (d\<lparr>trunc_fault := None\<rparr>) r' (w\<lparr>log_file := Some c\<rparr>))) =
     Some []
   \<and> fst (handleGet (e\<lparr>read_fault := None\<rparr>) r
        (snd (handleDelete (d\<lparr>trunc_fault := None\<rparr>) r' (w\<lparr>log_file := Some c\<rparr>)))) =
     \<lparr>status = 200, body = []\<rparr>"
proof -
  have a: "fst (handleGet (e\<lparr>read_fault := None\<rparr>) r (w\<lparr>log_file := None\<rparr>)) =
     \<lparr>status = 200, body = msg_log_empty\<rparr>"
    by (simp add: handleGet_absent)
  have b: "fst (handleGet e r (w\<lparr>log_file := Some c\<rparr>)) =
     (if read_fault e = None then \<lparr>status = 200, body = c\<rparr>
      else \<lparr>status = 500, body = msg_read_failed @ [CHR 0x0A]\<rparr>)"
    by (cases "read_fault e") (simp_all add: handleGet_present handleGet_fault)
  have c: "fst (handleGet (e\<lparr>read_fault := None\<rparr>) r (w\<lparr>log_file := Some []\<rparr>)) =
     \<lparr>status = 200, body = []\<rparr>"
    by (simp add: handleGet_present)
  have d: "\<lparr>status = 200, body = []\<rparr> \<noteq> \<lparr>status = 200, body = msg_log_empty\<rparr>"
    using msg_log_empty_not_nil by auto
  have del: "snd (handleDelete (d\<lparr>trunc_fault := None\<rparr>) r' (w\<lparr>log_file := Some c\<rparr>)) =
     traced SysTruncate (w\<lparr>log_file := Some []\<rparr>)"
    using handleDelete_present [of "d\<lparr>trunc_fault := None\<rparr>" "w\<lparr>log_file := Some c\<rparr>" c r']
    by simp
  have f: "log_file (snd (handleDelete (d\<lparr>trunc_fault := None\<rparr>) r' (w\<lparr>log_file := Some c\<rparr>))) =
     Some []"
    by (simp add: del traced_def)
  have g: "fst (handleGet (e\<lparr>read_fault := None\<rparr>) r
        (snd (handleDelete (d\<lparr>trunc_fault := None\<rparr>) r' (w\<lparr>log_file := Some c\<rparr>)))) =
     \<lparr>status = 200, body = []\<rparr>"
    using f handleGet_present [of "e\<lparr>read_fault := None\<rparr>" _ "[]" r] by simp
  from a b c d f g show ?thesis by blast
qed

section \<open>DELETE followed by GET\<close>

text \<open>
  C1, as the specification states it: after a successful DELETE, GET returns the fixed
  empty-log message whatever the file held. It fails on a file that exists: DELETE
  truncates the file, it does not remove it, and GET answers an existing file with its
  bytes. With one logged line in the file, the DELETE answers 200 and the GET that follows
  answers 200 with an empty body.
\<close>

theorem delete_then_get_counterexample:
  "status (fst (handleRoot (quiet []) DELETE
      \<lparr>log_file = Some (logEntry ''2024-05-01T10:00:00Z''
          \<lparr>DeviceName = ''PC1_1'', DeviceType = ''PC'', IPAddress = ''192.168.1.10'',
           RoutingType = ''Dynamic''\<rparr>), sys_trace = []\<rparr>)) = 200
   \<and> fst (handleRoot (quiet []) GET (snd (handleRoot (quiet []) DELETE
      \<lparr>log_file = Some (logEntry ''2024-05-01T10:00:00Z''
          \<lparr>DeviceName = ''PC1_1'', DeviceType = ''PC'', IPAddress = ''192.168.1.10'',
           RoutingType = ''Dynamic''\<rparr>), sys_trace = []\<rparr>))) = \<lparr>status = 200, body = []\<rparr>
   \<and> body (fst (handleRoot (quiet []) GET (snd (handleRoot (quiet []) DELETE
      \<lparr>log_file = Some (logEntry ''2024-05-01T10:00:00Z''
          \<lparr>DeviceName = ''PC1_1'', DeviceType = ''PC'', IPAddress = ''192.168.1.10'',
           RoutingType = ''Dynamic''\<rparr>), sys_trace = []\<rparr>)))) \<noteq> msg_log_empty"
  by (simp add: handleRoot_def GET_def DELETE_def quiet_def handleGet_def handleDelete_def
      os_ReadFile_def os_Truncate_def traced_def status_simps msg_log_empty_def)

text \<open>
  C1, amended: after a successful DELETE (status 200), a GET whose read does not fail
  answers 200 with the fixed empty-log message when the file did not exist before the
  DELETE, and 200 with an empty body when it existed, whatever it held.
\<close>

theorem delete_then_get:
  assumes "Method rd = ''DELETE''" and "Method rg = ''GET''"
    and "status (fst (handleRoot ed rd w)) = 200"
    and "read_fault eg = None"
  shows "fst (handleRoot eg rg (snd (handleRoot ed rd w))) =
     (if log_file w = None then \<lparr>status = 200, body = msg_log_empty\<rparr>
      else \<lparr>status = 200, body = []\<rparr>)"
proof (cases "trunc_fault ed")
  case (Some f)
  with assms show ?thesis
    by (simp add: handleRoot_delete handleDelete_fault)
next
  case None
  show ?thesis
  proof (cases "log_file w")
    case absent: None
    have "snd (handleRoot ed rd w) = traced SysTruncate w"
      using assms(1) None absent by (simp add: handleRoot_delete handleDelete_absent)
    moreover have "log_file (traced SysTruncate w) = None"
      using absent by (simp add: traced_def)
    ultimately show ?thesis
      using assms(2,4) absent by (simp add: handleRoot_get handleGet_absent)
  next
    case (Some c)
    have "snd (handleRoot ed rd w) = traced SysTruncate (w\<lparr>log_file := Some []\<rparr>)"
      using assms(1) None Some by (simp add: handleRoot_delete handleDelete_present)
    moreover have "log_file (traced SysTruncate (w\<lparr>log_file := Some []\<rparr>)) = Some []"
      by (simp add: traced_def)
    ultimately show ?thesis
      using assms(2,4) Some by (simp add: handleRoot_get handleGet_present)
  qed
qed

theorem delete_then_get_witness:
  "fst (handleRoot (quiet []) GET
      (snd (handleRoot (quiet []) DELETE \<lparr>log_file = None, sys_trace = []\<rparr>))) =
     \<lparr>status = 200, body = msg_log_empty\<rparr>
   \<and> fst (handleRoot (quiet []) GET
      (snd (handleRoot (quiet []) DELETE \<lparr>log_file = Some ''old'', sys_trace = []\<rparr>))) =
     \<lparr>status = 200, body = []\<rparr>"
proof -
  have m: "Method DELETE = ''DELETE''" "Method GET = ''GET''"
    by (simp_all add: DELETE_def GET_def)
  have q: "read_fault (quiet []) = None"
    by (simp add: quiet_def)
  have s1: "status (fst (handleRoot (quiet []) DELETE \<lparr>log_file = None, sys_trace = []\<rparr>)) = 200"
    by (simp add: handleRoot_def DELETE_def quiet_def handleDelete_def os_Truncate_def
        status_simps)
  have s2: "status (fst (handleRoot (quiet []) DELETE
      \<lparr>log_file = Some ''old'', sys_trace = []\<rparr>)) = 200"
    by (simp add: handleRoot_def DELETE_def quiet_def handleDelete_def os_Truncate_def
        status_simps)
  show ?thesis
    using delete_then_get [OF m s1 q] delete_then_get [OF m s2 q] by simp
qed

section \<open>Requests that are refused\<close>

text \<open>
  C4. A POST whose body does not decode (a syntax error, or a JSON value that does not fit
  the record) is answered with status 400, and the world is the one before the request:
  the same file, and no file-system call recorded.
\<close>

theorem post_undecodable_body:
  assumes "Method r = ''POST''" and "Decode (Body r) zero_payload = Inl err"
  shows "handleRoot e r w = (\<lparr>status = 400, body = msg_bad_json @ [CHR 0x0A]\<rparr>, w)
     \<and> log_file (snd (handleRoot e r w)) = log_file w
     \<and> sys_trace (snd (handleRoot e r w)) = sys_trace w"
  using assms by (simp add: handleRoot_post handlePost_undecodable)

theorem post_undecodable_body_witness:
  "handleRoot (quiet ''2024-05-01T10:00:00Z'') (POST (JString ''not json''))
     \<lparr>log_file = Some ''old'', sys_trace = []\<rparr> =
     (\<lparr>status = 400, body = msg_bad_json @ [CHR 0x0A]\<rparr>, \<lparr>log_file = Some ''old'', sys_trace = []\<rparr>)
   \<and> handleRoot (quiet ''2024-05-01T10:00:00Z'') \<lparr>Method = ''POST'', Body = Malformed\<rparr>
     \<lparr>log_file = None, sys_trace = []\<rparr> =
     (\<lparr>status = 400, body = msg_bad_json @ [CHR 0x0A]\<rparr>, \<lparr>log_file = None, sys_trace = []\<rparr>)"
proof -
  have a: "Method (POST (JString ''not json'')) = ''POST''"
    by (simp add: POST_def)
  have b: "Decode (Body (POST (JString ''not json''))) zero_payload = Inl UnmarshalTypeError"
    by (simp add: POST_def)
  have c: "Method \<lparr>Method = ''POST'', Body = Malformed\<rparr> = ''POST''"
    by simp
  have d: "Decode (Body \<lparr>Method = ''POST'', Body = Malformed\<rparr>) zero_payload = Inl SyntaxError"
    by simp
  show ?thesis
    using post_undecodable_body [OF a b] post_undecodable_body [OF c d] by simp
qed

text \<open>
  C9. A request whose method is none of GET, POST and DELETE is answered with status 405,
  and the world is the one before the request: the same file, no file-system call.
\<close>

theorem other_method_not_allowed:
  assumes "Method r \<noteq> ''GET''" and "Method r \<noteq> ''POST''" and "Method r \<noteq> ''DELETE''"
  shows "handleRoot e r w =
       (\<lparr>status = 405, body = msg_method_not_allowed @ [CHR 0x0A]\<rparr>, w)
     \<and> log_file (snd (handleRoot e r w)) = log_file w
     \<and> sys_trace (snd (handleRoot e r w)) = sys_trace w"
  using assms by (simp add: handleRoot_def http_Error_def status_simps)

theorem other_method_not_allowed_witness:
  "handleRoot (quiet []) \<lparr>Method = ''PUT'', Body = Value (JObject [])\<rparr>
     \<lparr>log_file = Some ''old'', sys_trace = []\<rparr> =
     (\<lparr>status = 405, body = msg_method_not_allowed @ [CHR 0x0A]\<rparr>,
      \<lparr>log_file = Some ''old'', sys_trace = []\<rparr>)"
proof -
  have "Method \<lparr>Method = ''PUT'', Body = Value (JObject [])\<rparr> \<noteq> ''GET''"
    and "Method \<lparr>Method = ''PUT'', Body = Value (JObject [])\<rparr> \<noteq> ''POST''"
    and "Method \<lparr>Method = ''PUT'', Body = Value (JObject [])\<rparr> \<noteq> ''DELETE''"
    by simp_all
  from other_method_not_allowed [OF this] show ?thesis by simp
qed

section \<open>POST: what is accepted and what is logged\<close>

lemma store_value_other_field:
  "store_value g v q = Inr q' \<Longrightarrow> g \<noteq> f \<Longrightarrow> get_field f q' = get_field f q"
  by (cases v; cases f; cases g) auto

lemma decode_object_skip_unknown:
  "field_of_key k = None \<Longrightarrow>
   decode_object (kvs @ (k, v) # kvs') q = decode_object (kvs @ kvs') q"
proof (induction kvs arbitrary: q)
  case Nil
  then show ?case by simp
next
  case (Cons kv kvs)
  obtain k' v' where kv: "kv = (k', v')" by (cases kv)
  show ?case
    using Cons by (simp add: kv split: option.splits sum.splits)
qed

lemma decode_object_missing_field:
  "decode_object kvs q = Inr p \<Longrightarrow> list_all (\<lambda>kv. field_of_key (fst kv) \<noteq> Some f) kvs \<Longrightarrow>
   get_field f p = get_field f q"
proof (induction kvs arbitrary: q)
  case Nil
  then show ?case by simp
next
  case (Cons kv kvs)
  obtain k v where kv: "kv = (k, v)" by (cases kv)
  show ?case
  proof (cases "field_of_key k")
    case None
    with Cons kv show ?thesis by simp
  next
    case (Some g)
    with Cons.prems kv have gf: "g \<noteq> f" by auto
    from Cons.prems Some kv obtain q' where
      st: "store_value g v q = Inr q'" and rest: "decode_object kvs q' = Inr p"
      by (auto split: sum.splits)
    from Cons.IH [OF rest] Cons.prems(2) have "get_field f p = get_field f q'" by simp
    with store_value_other_field [OF st gf] show ?thesis by simp
  qed
qed

lemma get_field_zero: "get_field f zero_payload = []"
  by (cases f) (simp_all add: zero_payload_def)

lemma handlePost_status_cases:
  "Decode (Body r) zero_payload = Inr p \<Longrightarrow>
   status (fst (handlePost e r w)) =
     (if open_fault e = None \<and> write_fault e = None then 200 else 500)"
proof (cases "open_fault e")
  case (Some f)
  assume "Decode (Body r) zero_payload = Inr p"
  with Some show ?thesis by (simp add: handlePost_open_fault)
next
  case None
  assume d: "Decode (Body r) zero_payload = Inr p"
  show ?thesis
  proof (cases "write_fault e")
    case wn: None
    with None d show ?thesis by (simp add: handlePost_ok)
  next
    case (Some nf)
    obtain n f where "nf = (n, f)" by (cases nf)
    with None d Some show ?thesis by (simp add: handlePost_write_fault)
  qed
qed

text \<open>
  C10. POST checks nothing about the fields. Whenever the body decodes into the record,
  the answer is never 400: it is 200, with the line of the decoded record appended, unless
  opening or writing the file fails (then 500). The empty object decodes to the record of
  four empty strings and its line is \<open>[t] Name=, Type=, IP=, Routing=\<close>. A key that names no
  field is skipped wherever it stands, and a field that no key of the object names is the
  empty string in the decoded record.
\<close>

theorem post_accepts_every_decoded_body:
  "(Decode (Body r) zero_payload = Inr p \<longrightarrow>
      status (fst (handlePost e r w)) \<noteq> 400
      \<and> status (fst (handlePost e r w)) =
          (if open_fault e = None \<and> write_fault e = None then 200 else 500)
      \<and> (open_fault e = None \<and> write_fault e = None \<longrightarrow>
          handlePost e r w =
            (\<lparr>status = 200, body = msg_written\<rparr>,
             w\<lparr>log_file := Some (file_bytes (log_file w) @ logEntry (now e) p),
               sys_trace := sys_trace w @ [SysOpenFile, SysWriteString, SysClose]\<rparr>)))
   \<and> Decode (Value (JObject [])) zero_payload = Inr zero_payload
   \<and> logEntry t zero_payload = ''['' @ t @ ''] Name=, Type=, IP=, Routing='' @ [CHR 0x0A]
   \<and> (field_of_key k = None \<longrightarrow>
        Decode (Value (JObject (kvs @ (k, v) # kvs'))) q = Decode (Value (JObject (kvs @ kvs'))) q)
   \<and> (Decode (Value (JObject obj)) zero_payload = Inr p'
        \<and> list_all (\<lambda>kv. field_of_key (fst kv) \<noteq> Some f) obj \<longrightarrow>
        get_field f p' = [])"
proof -
  have a: "Decode (Body r) zero_payload = Inr p \<longrightarrow>
      status (fst (handlePost e r w)) \<noteq> 400
      \<and> status (fst (handlePost e r w)) =
          (if open_fault e = None \<and> write_fault e = None then 200 else 500)
      \<and> (open_fault e = None \<and> write_fault e = None \<longrightarrow>
          handlePost e r w =
            (\<lparr>status = 200, body = msg_written\<rparr>,
             w\<lparr>log_file := Some (file_bytes (log_file w) @ logEntry (now e) p),
               sys_trace := sys_trace w @ [SysOpenFile, SysWriteString, SysClose]\<rparr>))"
    by (simp add: handlePost_status_cases handlePost_ok)
  have b: "Decode (Value (JObject [])) zero_payload = Inr zero_payload"
    by simp
  have c: "logEntry t zero_payload = ''['' @ t @ ''] Name=, Type=, IP=, Routing='' @ [CHR 0x0A]"
    by (simp add: logEntry_def zero_payload_def)
  have d: "field_of_key k = None \<longrightarrow>
        Decode (Value (JObject (kvs @ (k, v) # kvs'))) q = Decode (Value (JObject (kvs @ kvs'))) q"
    by (simp add: decode_object_skip_unknown)
  have e: "Decode (Value (JObject obj)) zero_payload = Inr p'
        \<and> list_all (\<lambda>kv. field_of_key (fst kv) \<noteq> Some f) obj \<longrightarrow>
        get_field f p' = []"
    using decode_object_missing_field [of obj zero_payload p' f] by (simp add: get_field_zero)
  from a b c d e show ?thesis by blast
qed

theorem post_accepts_every_decoded_body_witness:
  "handlePost (quiet ''2024-05-01T10:00:00Z'')
      (POST (JObject [(''Color'', JString ''red''), (''DeviceName'', JString ''PC1_1'')]))
      \<lparr>log_file = None, sys_trace = []\<rparr> =
     (\<lparr>status = 200, body = msg_written\<rparr>,
      \<lparr>log_file = Some (''[2024-05-01T10:00:00Z] Name=PC1_1, Type=, IP=, Routing='' @ [CHR 0x0A]),
       sys_trace = [SysOpenFile, SysWriteString, SysClose]\<rparr>)
   \<and> Decode (Value (JObject [(''Color'', JString ''red''), (''DeviceName'', JString ''PC1_1'')]))
        zero_payload =
      Decode (Value (JObject [(''DeviceName'', JString ''PC1_1'')])) zero_payload
   \<and> get_field FDeviceType
        \<lparr>DeviceName = ''PC1_1'', DeviceType = [], IPAddress = [], RoutingType = []\<rparr> = []"
proof -
  let ?kvs = "[(''Color'', JString ''red''), (''DeviceName'', JString ''PC1_1'')]"
  let ?p = "\<lparr>DeviceName = ''PC1_1'', DeviceType = [], IPAddress = [], RoutingType = []\<rparr>"
  have dec: "Decode (Body (POST (JObject ?kvs))) zero_payload = Inr ?p"
    by code_simp
  have dec': "Decode (Value (JObject ?kvs)) zero_payload = Inr ?p"
    by code_simp
  have unknown: "field_of_key ''Color'' = None"
    by code_simp
  have missing: "list_all (\<lambda>kv. field_of_key (fst kv) \<noteq> Some FDeviceType) ?kvs"
    by code_simp
  have env: "open_fault (quiet ''2024-05-01T10:00:00Z'') = None"
    "write_fault (quiet ''2024-05-01T10:00:00Z'') = None"
    "now (quiet ''2024-05-01T10:00:00Z'') = ''2024-05-01T10:00:00Z''"
    by (simp_all add: quiet_def)
  have line: "logEntry ''2024-05-01T10:00:00Z'' ?p =
      ''[2024-05-01T10:00:00Z] Name=PC1_1, Type=, IP=, Routing='' @ [CHR 0x0A]"
    by (simp add: logEntry_def)
  note inst = post_accepts_every_decoded_body
    [of "POST (JObject ?kvs)" ?p "quiet ''2024-05-01T10:00:00Z''"
        "\<lparr>log_file = None, sys_trace = []\<rparr>" t "''Color''" "[]" "JString ''red''"
        "[(''DeviceName'', JString ''PC1_1'')]" zero_payload ?kvs ?p FDeviceType]
  from inst dec env line
  have a: "handlePost (quiet ''2024-05-01T10:00:00Z'') (POST (JObject ?kvs))
      \<lparr>log_file = None, sys_trace = []\<rparr> =
     (\<lparr>status = 200, body = msg_written\<rparr>,
      \<lparr>log_file = Some (''[2024-05-01T10:00:00Z] Name=PC1_1, Type=, IP=, Routing='' @ [CHR 0x0A]),
       sys_trace = [SysOpenFile, SysWriteString, SysClose]\<rparr>)"
    by simp
  from inst unknown
  have b: "Decode (Value (JObject ?kvs)) zero_payload =
      Decode (Value (JObject [(''DeviceName'', JString ''PC1_1'')])) zero_payload"
    by simp
  from inst dec' missing
  have c: "get_field FDeviceType ?p = []"
    by blast
  from a b c show ?thesis by blast
qed

section \<open>A sequence of valid POSTs, then GET\<close>

lemma digit_not_newline: "k < 10 \<Longrightarrow> char_of (48 + k :: nat) \<noteq> CHR 0x0A"
proof
  assume k: "k < 10" and eq: "char_of (48 + k) = CHR 0x0A"
  from eq have "(of_char (char_of (48 + k)) :: nat) = of_char (CHR 0x0A)"
    by simp
  with k show False
    by simp
qed

lemma newline_free_simps [simp]:
  "newline_free []"
  "newline_free (c # cs) = (c \<noteq> CHR 0x0A \<and> newline_free cs)"
  "newline_free (a @ b) = (newline_free a \<and> newline_free b)"
  by (auto simp: newline_free_def)

lemma decimal_newline_free: "newline_free (decimal n)"
proof (induction n rule: decimal.induct)
  case (1 n)
  show ?case
  proof (cases "n < 10")
    case True
    then show ?thesis
      by (subst decimal.simps) (simp add: digit_not_newline)
  next
    case False
    with "1" show ?thesis
      by (subst decimal.simps) (simp add: digit_not_newline)
  qed
qed

lemma pad_newline_free: "newline_free (pad k n)"
proof -
  have "newline_free (replicate m (CHR ''0''))" for m
    by (induction m) simp_all
  then show ?thesis
    by (simp add: pad_def decimal_newline_free)
qed

lemma zone_suffix_newline_free: "newline_free (zone_suffix z)"
  by (simp add: zone_suffix_def Let_def pad_newline_free)

lemma RFC3339_newline_free: "newline_free (RFC3339 t)"
  by (simp add: RFC3339_def pad_newline_free zone_suffix_newline_free)

lemma line_text_newline_free:
  "plain_fields (decoded r) \<Longrightarrow> newline_free (line_text (t, r))"
  by (simp add: line_text_def plain_fields_def RFC3339_newline_free)

lemma lines_from_line:
  "newline_free l \<Longrightarrow> lines_from cur (l @ CHR 0x0A # rest) = (cur @ l) # lines_from [] rest"
proof (induction l arbitrary: cur)
  case Nil
  then show ?case by simp
next
  case (Cons c l)
  then show ?case by simp
qed

lemma text_lines_concat:
  "list_all (\<lambda>x. newline_free (f x)) xs \<Longrightarrow>
   text_lines (concat (map (\<lambda>x. f x @ [CHR 0x0A]) xs)) = map f xs"
proof (induction xs)
  case Nil
  then show ?case by (simp add: text_lines_def)
next
  case (Cons x xs)
  then show ?case
    using lines_from_line [of "f x" "[]" "concat (map (\<lambda>x. f x @ [CHR 0x0A]) xs)"]
    by (simp add: text_lines_def)
qed

lemma logEntry_line_text:
  "logEntry (RFC3339 t) (decoded r) = line_text (t, r) @ [CHR 0x0A]"
  by (simp add: logEntry_def line_text_def)

lemma valid_post_step:
  assumes "valid_post r"
  shows "handleRoot (quiet ts) r w =
     (\<lparr>status = 200, body = msg_written\<rparr>,
      w\<lparr>log_file := Some (file_bytes (log_file w) @ logEntry ts (decoded r)),
        sys_trace := sys_trace w @ [SysOpenFile, SysWriteString, SysClose]\<rparr>)"
proof -
  from assms obtain p where p: "Decode (Body r) zero_payload = Inr p"
    by (auto simp: valid_post_def decodes_def split: sum.splits)
  then have "decoded r = p"
    by (simp add: decoded_def)
  moreover have "open_fault (quiet ts) = None" "write_fault (quiet ts) = None" "now (quiet ts) = ts"
    by (simp_all add: quiet_def)
  ultimately show ?thesis
    using assms p by (simp add: valid_post_def handleRoot_post handlePost_ok)
qed

lemma serve_valid_posts:
  "list_all (\<lambda>x. valid_post (snd x)) reqs \<Longrightarrow>
   fst (serve (map stamped reqs) w) = replicate (length reqs) \<lparr>status = 200, body = msg_written\<rparr>
   \<and> file_bytes (log_file (snd (serve (map stamped reqs) w))) =
       file_bytes (log_file w) @ concat (map (\<lambda>x. line_text x @ [CHR 0x0A]) reqs)
   \<and> (log_file (snd (serve (map stamped reqs) w)) = None) = (reqs = [] \<and> log_file w = None)"
proof (induction reqs arbitrary: w)
  case Nil
  then show ?case by simp
next
  case (Cons x reqs)
  obtain t r where x: "x = (t, r)" by (cases x)
  from Cons.prems x have v: "valid_post r" and rest: "list_all (\<lambda>x. valid_post (snd x)) reqs"
    by simp_all
  let ?w1 = "w\<lparr>log_file := Some (file_bytes (log_file w) @ line_text (t, r) @ [CHR 0x0A]),
        sys_trace := sys_trace w @ [SysOpenFile, SysWriteString, SysClose]\<rparr>"
  have step: "handleRoot (quiet (RFC3339 t)) r w = (\<lparr>status = 200, body = msg_written\<rparr>, ?w1)"
    using valid_post_step [OF v, of "RFC3339 t" w] by (simp add: logEntry_line_text)
  have unfold: "serve (map stamped (x # reqs)) w =
      (\<lparr>status = 200, body = msg_written\<rparr> # fst (serve (map stamped reqs) ?w1),
       snd (serve (map stamped reqs) ?w1))"
    by (simp add: x stamped_def step case_prod_beta)
  from Cons.IH [OF rest, of ?w1] show ?case
    unfolding unfold by (simp add: x)
qed

lemma list_all_take: "list_all P xs \<Longrightarrow> list_all P (take k xs)"
  by (auto simp: list_all_iff dest: in_set_takeD)

text \<open>
  C3, as the specification states it, fails in two ways. A POST whose \<open>DeviceName\<close> holds
  a newline (in JSON, the escaped newline between \<open>a\<close> and \<open>b\<close>) is valid and
  answered 200, and it appends two lines: after that one POST on an absent file, GET returns
  two lines. And with no POST at
  all on an absent file, GET returns the fixed empty-log message, not zero lines.
\<close>

theorem posts_then_get_counterexample:
  "valid_post (POST (JObject [(''DeviceName'', JString (''a'' @ [CHR 0x0A] @ ''b'')),
      (''DeviceType'', JString ''PC''), (''IPAddress'', JString ''192.168.1.10''),
      (''RoutingType'', JString ''Static'')]))
   \<and> serve (map stamped
        [(\<lparr>year = 2024, month = 5, day = 1, hour = 10, minute = 0, second = 0, zone_offset = 0\<rparr>,
          POST (JObject [(''DeviceName'', JString (''a'' @ [CHR 0x0A] @ ''b'')),
            (''DeviceType'', JString ''PC''), (''IPAddress'', JString ''192.168.1.10''),
            (''RoutingType'', JString ''Static'')]))])
        \<lparr>log_file = None, sys_trace = []\<rparr> =
      ([\<lparr>status = 200, body = msg_written\<rparr>],
       \<lparr>log_file = Some (''[2024-05-01T10:00:00Z] Name=a'' @ [CHR 0x0A] @
          ''b, Type=PC, IP=192.168.1.10, Routing=Static'' @ [CHR 0x0A]),
        sys_trace = [SysOpenFile, SysWriteString, SysClose]\<rparr>)
   \<and> text_lines (body (fst (handleRoot (quiet []) GET
        \<lparr>log_file = Some (''[2024-05-01T10:00:00Z] Name=a'' @ [CHR 0x0A] @
          ''b, Type=PC, IP=192.168.1.10, Routing=Static'' @ [CHR 0x0A]),
         sys_trace = [SysOpenFile, SysWriteString, SysClose]\<rparr>))) =
      [''[2024-05-01T10:00:00Z] Name=a'', ''b, Type=PC, IP=192.168.1.10, Routing=Static'']
   \<and> fst (handleRoot (quiet []) GET
        (snd (serve (map stamped []) \<lparr>log_file = None, sys_trace = []\<rparr>))) =
      \<lparr>status = 200, body = msg_log_empty\<rparr>
   \<and> msg_log_empty \<noteq> []"
proof -
  have a: "valid_post (POST (JObject [(''DeviceName'', JString (''a'' @ [CHR 0x0A] @ ''b'')),
      (''DeviceType'', JString ''PC''), (''IPAddress'', JString ''192.168.1.10''),
      (''RoutingType'', JString ''Static'')]))"
    by code_simp
  have b: "serve (map stamped
        [(\<lparr>year = 2024, month = 5, day = 1, hour = 10, minute = 0, second = 0, zone_offset = 0\<rparr>,
          POST (JObject [(''DeviceName'', JString (''a'' @ [CHR 0x0A] @ ''b'')),
            (''DeviceType'', JString ''PC''), (''IPAddress'', JString ''192.168.1.10''),
            (''RoutingType'', JString ''Static'')]))])
        \<lparr>log_file = None, sys_trace = []\<rparr> =
      ([\<lparr>status = 200, body = msg_written\<rparr>],
       \<lparr>log_file = Some (''[2024-05-01T10:00:00Z] Name=a'' @ [CHR 0x0A] @
          ''b, Type=PC, IP=192.168.1.10, Routing=Static'' @ [CHR 0x0A]),
        sys_trace = [SysOpenFile, SysWriteString, SysClose]\<rparr>)"
    by code_simp
  have c: "text_lines (body (fst (handleRoot (quiet []) GET
        \<lparr>log_file = Some (''[2024-05-01T10:00:00Z] Name=a'' @ [CHR 0x0A] @
          ''b, Type=PC, IP=192.168.1.10, Routing=Static'' @ [CHR 0x0A]),
         sys_trace = [SysOpenFile, SysWriteString, SysClose]\<rparr>))) =
      [''[2024-05-01T10:00:00Z] Name=a'', ''b, Type=PC, IP=192.168.1.10, Routing=Static'']"
    by code_simp
  have d: "fst (handleRoot (quiet []) GET
      (snd (serve (map stamped []) \<lparr>log_file = None, sys_trace = []\<rparr>))) =
      \<lparr>status = 200, body = msg_log_empty\<rparr>"
    by (simp add: handleRoot_def GET_def quiet_def handleGet_def os_ReadFile_def status_simps)
  have e: "msg_log_empty \<noteq> []"
    by (rule msg_log_empty_not_nil)
  from a b c d e show ?thesis by blast
qed

text \<open>
  C3, amended: for every natural number N and every sequence of N valid POST requests
  (method POST, a body that decodes, opening and writing the log file succeed) whose
  decoded fields hold no newline byte, starting from an absent or empty log file, with N at
  least 1 or the file present: each POST is answered 200 and appends exactly one line of
  the form \<open>[RFC 3339 timestamp] Name=.., Type=.., IP=.., Routing=..\<close> with the four
  fields of the request and a final newline; after the first k POSTs the file holds
  exactly the first k lines; and a GET that follows answers 200 with exactly the N lines
  in the order posted.
\<close>

theorem posts_then_get:
  assumes "list_all (\<lambda>x. valid_post (snd x)) reqs"
    and "list_all (\<lambda>x. plain_fields (decoded (snd x))) reqs"
    and "log_file w = None \<or> log_file w = Some []"
    and "reqs \<noteq> [] \<or> log_file w = Some []"
    and "Method rg = ''GET''" and "read_fault eg = None"
  shows "fst (serve (map stamped reqs) w) =
       replicate (length reqs) \<lparr>status = 200, body = msg_written\<rparr>
     \<and> log_file (snd (serve (map stamped reqs) w)) =
         Some (concat (map (\<lambda>x. line_text x @ [CHR 0x0A]) reqs))
     \<and> fst (handleRoot eg rg (snd (serve (map stamped reqs) w))) =
         \<lparr>status = 200, body = concat (map (\<lambda>x. line_text x @ [CHR 0x0A]) reqs)\<rparr>
     \<and> text_lines (body (fst (handleRoot eg rg (snd (serve (map stamped reqs) w))))) =
         map line_text reqs
     \<and> length (text_lines (body (fst (handleRoot eg rg (snd (serve (map stamped reqs) w)))))) =
         length reqs
     \<and> text_lines (file_bytes (log_file (snd (serve (map stamped (take k reqs)) w)))) =
         take k (map line_text reqs)
     \<and> (valid_post r \<and> plain_fields (decoded r) \<longrightarrow>
          fst (handleRoot (quiet (RFC3339 t)) r w') = \<lparr>status = 200, body = msg_written\<rparr>
          \<and> log_file (snd (handleRoot (quiet (RFC3339 t)) r w')) =
              Some (file_bytes (log_file w') @ line_text (t, r) @ [CHR 0x0A])
          \<and> text_lines (line_text (t, r) @ [CHR 0x0A]) = [line_text (t, r)]
          \<and> line_text (t, r) =
              ''['' @ RFC3339 t @ ''] Name='' @ DeviceName (decoded r) @ '', Type='' @
              DeviceType (decoded r) @ '', IP='' @ IPAddress (decoded r) @ '', Routing='' @
              RoutingType (decoded r))"
proof -
  let ?entries = "concat (map (\<lambda>x. line_text x @ [CHR 0x0A]) reqs)"
  note sv = serve_valid_posts [OF assms(1), of w]
  from assms(3) have start: "file_bytes (log_file w) = []"
    by auto
  from sv assms(4) have "log_file (snd (serve (map stamped reqs) w)) \<noteq> None"
    by auto
  then obtain c where c: "log_file (snd (serve (map stamped reqs) w)) = Some c"
    by auto
  with sv start have fl: "log_file (snd (serve (map stamped reqs) w)) = Some ?entries"
    by simp
  have get: "fst (handleRoot eg rg (snd (serve (map stamped reqs) w))) =
         \<lparr>status = 200, body = ?entries\<rparr>"
    using assms(5,6) fl by (simp add: handleRoot_get handleGet_present)
  have nf: "list_all (\<lambda>x. newline_free (line_text x)) reqs"
    using assms(2) by (auto simp: list_all_iff line_text_newline_free)
  have ls: "text_lines ?entries = map line_text reqs"
    by (rule text_lines_concat [OF nf])
  have pre: "text_lines (file_bytes (log_file (snd (serve (map stamped (take k reqs)) w)))) =
         take k (map line_text reqs)"
  proof -
    have "list_all (\<lambda>x. valid_post (snd x)) (take k reqs)"
      by (rule list_all_take [OF assms(1)])
    from serve_valid_posts [OF this, of w] start
    have "file_bytes (log_file (snd (serve (map stamped (take k reqs)) w))) =
        concat (map (\<lambda>x. line_text x @ [CHR 0x0A]) (take k reqs))"
      by simp
    moreover have "list_all (\<lambda>x. newline_free (line_text x)) (take k reqs)"
      by (rule list_all_take [OF nf])
    ultimately show ?thesis
      by (simp add: text_lines_concat take_map)
  qed
  have one: "valid_post r \<and> plain_fields (decoded r) \<longrightarrow>
          fst (handleRoot (quiet (RFC3339 t)) r w') = \<lparr>status = 200, body = msg_written\<rparr>
          \<and> log_file (snd (handleRoot (quiet (RFC3339 t)) r w')) =
              Some (file_bytes (log_file w') @ line_text (t, r) @ [CHR 0x0A])
          \<and> text_lines (line_text (t, r) @ [CHR 0x0A]) = [line_text (t, r)]
          \<and> line_text (t, r) =
              ''['' @ RFC3339 t @ ''] Name='' @ DeviceName (decoded r) @ '', Type='' @
              DeviceType (decoded r) @ '', IP='' @ IPAddress (decoded r) @ '', Routing='' @
              RoutingType (decoded r)"
  proof
    assume h: "valid_post r \<and> plain_fields (decoded r)"
    then have nl: "newline_free (line_text (t, r))"
      by (simp add: line_text_newline_free)
    have "text_lines (line_text (t, r) @ [CHR 0x0A]) = [line_text (t, r)]"
      using lines_from_line [OF nl, of "[]" "[]"] by (simp add: text_lines_def)
    moreover have "line_text (t, r) =
              ''['' @ RFC3339 t @ ''] Name='' @ DeviceName (decoded r) @ '', Type='' @
              DeviceType (decoded r) @ '', IP='' @ IPAddress (decoded r) @ '', Routing='' @
              RoutingType (decoded r)"
      by (simp add: line_text_def)
    ultimately show "fst (handleRoot (quiet (RFC3339 t)) r w') = \<lparr>status = 200, body = msg_written\<rparr>
          \<and> log_file (snd (handleRoot (quiet (RFC3339 t)) r w')) =
              Some (file_bytes (log_file w') @ line_text (t, r) @ [CHR 0x0A])
          \<and> text_lines (line_text (t, r) @ [CHR 0x0A]) = [line_text (t, r)]
          \<and> line_text (t, r) =
              ''['' @ RFC3339 t @ ''] Name='' @ DeviceName (decoded r) @ '', Type='' @
              DeviceType (decoded r) @ '', IP='' @ IPAddress (decoded r) @ '', Routing='' @
              RoutingType (decoded r)"
      using h valid_post_step [of r "RFC3339 t" w'] by (simp add: logEntry_line_text)
  qed
  from sv have resp: "fst (serve (map stamped reqs) w) =
       replicate (length reqs) \<lparr>status = 200, body = msg_written\<rparr>"
    by simp
  have len: "length (text_lines (body (fst (handleRoot eg rg (snd (serve (map stamped reqs) w)))))) =
         length reqs"
    by (simp add: get ls)
  have ls': "text_lines (body (fst (handleRoot eg rg (snd (serve (map stamped reqs) w))))) =
         map line_text reqs"
    by (simp add: get ls)
  from resp fl get ls' len pre one show ?thesis
    by blast
qed

theorem posts_then_get_witness:
  "text_lines (body (fst (handleRoot (quiet []) GET
     (snd (serve (map stamped
       [(\<lparr>year = 2024, month = 5, day = 2, hour = 10, minute = 0, second = 0, zone_offset = 0\<rparr>,
         POST (JObject [(''DeviceName'', JString ''PC1_1''), (''DeviceType'', JString ''PC''),
           (''IPAddress'', JString ''192.168.1.10''), (''RoutingType'', JString ''Static'')])),
        (\<lparr>year = 2024, month = 5, day = 2, hour = 13, minute = 0, second = 7,
          zone_offset = 10800\<rparr>,
         POST (JObject [(''DeviceName'', JString ''Laptop1_1''), (''DeviceType'', JString ''Laptop''),
           (''IPAddress'', JString ''192.168.1.13''), (''RoutingType'', JString ''Static'')]))])
       \<lparr>log_file = None, sys_trace = []\<rparr>))))) =
     [''[2024-05-02T10:00:00Z] Name=PC1_1, Type=PC, IP=192.168.1.10, Routing=Static'',
      ''[2024-05-02T13:00:07+03:00] Name=Laptop1_1, Type=Laptop, IP=192.168.1.13, Routing=Static'']
   \<and> log_file (snd (handleRoot
       (quiet (RFC3339 \<lparr>year = 2024, month = 5, day = 2, hour = 10, minute = 0, second = 0,
          zone_offset = 0\<rparr>))
       (POST (JObject [(''DeviceName'', JString ''PC1_1''), (''DeviceType'', JString ''PC''),
          (''IPAddress'', JString ''192.168.1.10''), (''RoutingType'', JString ''Static'')]))
       \<lparr>log_file = Some (''earlier line'' @ [CHR 0x0A]), sys_trace = []\<rparr>)) =
     Some (''earlier line'' @ [CHR 0x0A] @
       ''[2024-05-02T10:00:00Z] Name=PC1_1, Type=PC, IP=192.168.1.10, Routing=Static'' @
       [CHR 0x0A])"
proof -
  let ?t1 = "\<lparr>year = 2024, month = 5, day = 2, hour = 10, minute = 0, second = 0,
      zone_offset = 0\<rparr>"
  let ?r1 = "POST (JObject [(''DeviceName'', JString ''PC1_1''), (''DeviceType'', JString ''PC''),
           (''IPAddress'', JString ''192.168.1.10''), (''RoutingType'', JString ''Static'')])"
  let ?t2 = "\<lparr>year = 2024, month = 5, day = 2, hour = 13, minute = 0, second = 7,
      zone_offset = 10800\<rparr>"
  let ?r2 = "POST (JObject [(''DeviceName'', JString ''Laptop1_1''), (''DeviceType'', JString ''Laptop''),
           (''IPAddress'', JString ''192.168.1.13''), (''RoutingType'', JString ''Static'')])"
  let ?w = "\<lparr>log_file = None, sys_trace = []\<rparr>"
  let ?w' = "\<lparr>log_file = Some (''earlier line'' @ [CHR 0x0A]), sys_trace = []\<rparr>"
  let ?p1 = "\<lparr>DeviceName = ''PC1_1'', DeviceType = ''PC'', IPAddress = ''192.168.1.10'',
      RoutingType = ''Static''\<rparr>"
  let ?p2 = "\<lparr>DeviceName = ''Laptop1_1'', DeviceType = ''Laptop'', IPAddress = ''192.168.1.13'',
      RoutingType = ''Static''\<rparr>"
  have d1: "Decode (Body ?r1) zero_payload = Inr ?p1"
    by code_simp
  have d2: "Decode (Body ?r2) zero_payload = Inr ?p2"
    by code_simp
  have c1: "RFC3339 ?t1 = ''2024-05-02T10:00:00Z''"
    by code_simp
  have c2: "RFC3339 ?t2 = ''2024-05-02T13:00:07+03:00''"
    by code_simp
  have dec: "decodes ?r1" "decodes ?r2" "decoded ?r1 = ?p1" "decoded ?r2 = ?p2"
    by (simp_all add: decodes_def decoded_def d1 d2)
  have m: "Method ?r1 = ''POST''" "Method ?r2 = ''POST''"
    by (simp_all add: POST_def)
  have v1: "valid_post ?r1" "plain_fields (decoded ?r1)"
    by (simp_all add: valid_post_def m dec plain_fields_def newline_free_def)
  have v2: "valid_post ?r2" "plain_fields (decoded ?r2)"
    by (simp_all add: valid_post_def m dec plain_fields_def newline_free_def)
  have v: "list_all (\<lambda>x. valid_post (snd x)) [(?t1, ?r1), (?t2, ?r2)]"
    using v1 v2 by simp
  have p: "list_all (\<lambda>x. plain_fields (decoded (snd x))) [(?t1, ?r1), (?t2, ?r2)]"
    using v1 v2 by simp
  have s: "log_file ?w = None \<or> log_file ?w = Some []"
    by simp
  have n: "[(?t1, ?r1), (?t2, ?r2)] \<noteq> [] \<or> log_file ?w = Some []"
    by simp
  have g: "Method GET = ''GET''"
    by (simp add: GET_def)
  have q: "read_fault (quiet []) = None"
    by (simp add: quiet_def)
  have l1: "line_text (?t1, ?r1) =
      ''[2024-05-02T10:00:00Z] Name=PC1_1, Type=PC, IP=192.168.1.10, Routing=Static''"
    by (simp add: line_text_def c1 dec)
  have l2: "line_text (?t2, ?r2) =
      ''[2024-05-02T13:00:07+03:00] Name=Laptop1_1, Type=Laptop, IP=192.168.1.13, Routing=Static''"
    by (simp add: line_text_def c2 dec)
  note inst = posts_then_get [OF v p s n g q, of 0 ?r1 ?t1 ?w']
  note lines = inst [THEN conjunct2, THEN conjunct2, THEN conjunct2, THEN conjunct1]
  note single = inst [THEN conjunct2, THEN conjunct2, THEN conjunct2, THEN conjunct2,
      THEN conjunct2, THEN conjunct2]
  from lines have a: "text_lines (body (fst (handleRoot (quiet []) GET
     (snd (serve (map stamped [(?t1, ?r1), (?t2, ?r2)]) ?w))))) =
     [''[2024-05-02T10:00:00Z] Name=PC1_1, Type=PC, IP=192.168.1.10, Routing=Static'',
      ''[2024-05-02T13:00:07+03:00] Name=Laptop1_1, Type=Laptop, IP=192.168.1.13, Routing=Static'']"
    by (simp only: list.map l1 l2)
  from single v1 have "log_file (snd (handleRoot (quiet (RFC3339 ?t1)) ?r1 ?w')) =
     Some (file_bytes (log_file ?w') @ line_text (?t1, ?r1) @ [CHR 0x0A])"
    by blast
  with l1 have b: "log_file (snd (handleRoot (quiet (RFC3339 ?t1)) ?r1 ?w')) =
     Some (''earlier line'' @ [CHR 0x0A] @
       ''[2024-05-02T10:00:00Z] Name=PC1_1, Type=PC, IP=192.168.1.10, Routing=Static'' @
       [CHR 0x0A])"
    by simp
  from a b show ?thesis
    by simp
qed

section \<open>The records the simulation sends\<close>

text \<open>
  C7. The driver sends ten records, five for subnet 192.168.1 and then five for subnet
  192.168.2, each in the order PC, PC, PC, Laptop, Printer, with the IP suffixes 10 to 14,
  routing "Dynamic" at the even suffixes 10, 12, 14 and "Static" at the odd ones 11, 13,
  and the names made of the type, the index within the type and the subnet number 1 or 2.
\<close>

theorem runSimulation_records:
  "runSimulation =
     [\<lparr>DeviceName = ''PC1_1'', DeviceType = ''PC'', IPAddress = ''192.168.1.10'',
       RoutingType = ''Dynamic''\<rparr>,
      \<lparr>DeviceName = ''PC2_1'', DeviceType = ''PC'', IPAddress = ''192.168.1.11'',
       RoutingType = ''Static''\<rparr>,
      \<lparr>DeviceName = ''PC3_1'', DeviceType = ''PC'', IPAddress = ''192.168.1.12'',
       RoutingType = ''Dynamic''\<rparr>,
      \<lparr>DeviceName = ''Laptop1_1'', DeviceType = ''Laptop'', IPAddress = ''192.168.1.13'',
       RoutingType = ''Static''\<rparr>,
      \<lparr>DeviceName = ''Printer1_1'', DeviceType = ''Printer'', IPAddress = ''192.168.1.14'',
       RoutingType = ''Dynamic''\<rparr>,
      \<lparr>DeviceName = ''PC1_2'', DeviceType = ''PC'', IPAddress = ''192.168.2.10'',
       RoutingType = ''Dynamic''\<rparr>,
      \<lparr>DeviceName = ''PC2_2'', DeviceType = ''PC'', IPAddress = ''192.168.2.11'',
       RoutingType = ''Static''\<rparr>,
      \<lparr>DeviceName = ''PC3_2'', DeviceType = ''PC'', IPAddress = ''192.168.2.12'',
       RoutingType = ''Dynamic''\<rparr>,
      \<lparr>DeviceName = ''Laptop1_2'', DeviceType = ''Laptop'', IPAddress = ''192.168.2.13'',
       RoutingType = ''Static''\<rparr>,
      \<lparr>DeviceName = ''Printer1_2'', DeviceType = ''Printer'', IPAddress = ''192.168.2.14'',
       RoutingType = ''Dynamic''\<rparr>]"
  by code_simp

end
